theory Spec2Isabelle
  imports Complex_Main "HOL-Library.Sublist"
begin

section \<open>Numbers\<close>

text \<open>
  The numbers stored in records (amounts, meal counts) and their sums are modelled as
  exact reals: rounding of IEEE doubles is not modelled. The one operation of the engine
  that can leave the finite numbers is the division in \<open>getTotalBills\<close> and in
  \<open>generatePDFReport\<close>. Its result has the type \<open>num\<close>, which adds the three special
  values a JavaScript division by zero yields, with the arithmetic JavaScript gives them.
\<close>

datatype num = Finite real | PosInfinity | NegInfinity | NaN

definition js_divide :: "real \<Rightarrow> real \<Rightarrow> num" where
  \<comment> \<open>\<open>a / b\<close>\<close>
  "js_divide a b =
     (if b = 0 then (if a = 0 then NaN else if 0 < a then PosInfinity else NegInfinity)
      else Finite (a / b))"

fun num_times :: "num \<Rightarrow> real \<Rightarrow> num" where
  \<comment> \<open>\<open>x * c\<close> for a finite \<open>c\<close>\<close>
  "num_times (Finite a) c = Finite (a * c)"
| "num_times NaN c = NaN"
| "num_times PosInfinity c = (if c = 0 then NaN else if 0 < c then PosInfinity else NegInfinity)"
| "num_times NegInfinity c = (if c = 0 then NaN else if 0 < c then NegInfinity else PosInfinity)"

fun num_minus :: "num \<Rightarrow> real \<Rightarrow> num" where
  \<comment> \<open>\<open>x - c\<close> for a finite \<open>c\<close>\<close>
  "num_minus (Finite a) c = Finite (a - c)"
| "num_minus x c = x"

fun num_plus :: "num \<Rightarrow> num \<Rightarrow> num" where
  \<comment> \<open>\<open>x + y\<close>\<close>
  "num_plus (Finite a) (Finite b) = Finite (a + b)"
| "num_plus NaN y = NaN"
| "num_plus x NaN = NaN"
| "num_plus PosInfinity NegInfinity = NaN"
| "num_plus NegInfinity PosInfinity = NaN"
| "num_plus PosInfinity y = PosInfinity"
| "num_plus NegInfinity y = NegInfinity"
| "num_plus (Finite a) y = y"

fun Math_max0 :: "num \<Rightarrow> num" where
  \<comment> \<open>\<open>Math.max(0, x)\<close>\<close>
  "Math_max0 (Finite a) = Finite (max 0 a)"
| "Math_max0 NaN = NaN"
| "Math_max0 PosInfinity = PosInfinity"
| "Math_max0 NegInfinity = Finite 0"

section \<open>The host\<close>

text \<open>
  \<open>Number\<close>, \<open>new Date(string)\<close> and \<open>String.prototype.toLowerCase\<close> are functions of the
  JavaScript host, not of this program: the model takes them as a parameter \<open>H\<close>.
  \<^item> \<open>Number H s\<close> is \<open>None\<close> when \<open>Number(s)\<close> is not a finite number (NaN, or an infinity):
    such a value is \<open>===\<close> to no year and, less one, to no month of a date.
  \<^item> \<open>Date H s\<close> is \<open>None\<close> when \<open>new Date(s)\<close> is an invalid date, whose \<open>getFullYear()\<close>
    and \<open>getMonth()\<close> are NaN; otherwise it holds what the two getters return, in the
    host's local time.
\<close>

record jsDate =
  getFullYear :: int
  getMonth :: int

record host =
  Number :: "string \<Rightarrow> real option"
  Date :: "string \<Rightarrow> jsDate option"
  toLowerCase :: "string \<Rightarrow> string"

section \<open>Records and global state\<close>

text \<open>
  The four kinds of stored records. Field \<open>x\<close> of a member, bill, payment or meal entry is
  written \<open>m_x\<close>, \<open>b_x\<close>, \<open>p_x\<close>, \<open>e_x\<close>; \<open>m_phone\<close> is \<open>None\<close> when the record has no phone.
\<close>

record member_rec =
  m_id :: string
  m_name :: string
  m_phone :: "string option"
  m_join_date :: string
  m_backendId :: string

record bill_rec =
  b_id :: string
  b_title :: string
  b_bill_type :: string
  b_amount :: real
  b_date :: string
  b_split_type :: string
  b_participants :: string

record payment_rec =
  p_id :: string
  p_member_id :: string
  p_amount :: real
  p_date :: string
  p_payment_method :: string
  p_note :: string

record meal_entry_rec =
  e_id :: string
  e_member_id :: string
  e_meal_date :: string
  e_meal_count :: real

text \<open>
  The module-level variables of \<open>script.js\<close>. \<open>filterMonth\<close> is \<open>None\<close> for \<open>null\<close>;
  \<open>currentDate\<close> is the month cursor, always a valid date.
\<close>

record globals =
  members :: "member_rec list"
  bills :: "bill_rec list"
  payments :: "payment_rec list"
  mealEntries :: "meal_entry_rec list"
  filterMonth :: "string option"
  searchQuery :: string
  currentDate :: jsDate

section \<open>Filter helpers\<close>

fun split :: "char \<Rightarrow> string \<Rightarrow> string list" where
  \<comment> \<open>\<open>s.split(c)\<close> for a separator of one character\<close>
  "split c [] = [[]]"
| "split c (x # xs) =
     (if x = c then [] # split c xs
      else (case split c xs of [] \<Rightarrow> [[x]] | w # ws \<Rightarrow> (x # w) # ws))"

definition sameMonth :: "host \<Rightarrow> real option \<Rightarrow> real option \<Rightarrow> string \<Rightarrow> bool" where
  \<comment> \<open>\<open>d = new Date(s); d.getFullYear() === year && d.getMonth() === month - 1\<close>\<close>
  "sameMonth H year month s =
     (case Date H s of
        None \<Rightarrow> False
      | Some d \<Rightarrow>
          (case year of None \<Rightarrow> False | Some y \<Rightarrow> real_of_int (getFullYear d) = y) \<and>
          (case month of None \<Rightarrow> False | Some m \<Rightarrow> real_of_int (getMonth d) = m - 1))"

record filteredData =
  filteredBills :: "bill_rec list"
  filteredPayments :: "payment_rec list"
  filteredMealEntries :: "meal_entry_rec list"

definition getFilteredData :: "host \<Rightarrow> globals \<Rightarrow> filteredData" where
  \<comment> \<open>\<open>if (filterMonth)\<close>: \<open>null\<close> and the empty string are falsy. The destructured
      \<open>month\<close> is \<open>undefined\<close> when the string has no dash, and \<open>undefined - 1\<close> is NaN.\<close>
  "getFilteredData H g =
     (case filterMonth g of
        None \<Rightarrow>
          \<lparr>filteredBills = bills g, filteredPayments = payments g,
           filteredMealEntries = mealEntries g\<rparr>
      | Some fm \<Rightarrow>
          if fm = [] then
            \<lparr>filteredBills = bills g, filteredPayments = payments g,
             filteredMealEntries = mealEntries g\<rparr>
          else
            let parts = map (Number H) (split CHR ''-'' fm);
                year = (case parts of [] \<Rightarrow> None | y # _ \<Rightarrow> y);
                month = (case parts of y # m # _ \<Rightarrow> m | _ \<Rightarrow> None)
            in \<lparr>filteredBills = filter (\<lambda>b. sameMonth H year month (b_date b)) (bills g),
                filteredPayments = filter (\<lambda>p. sameMonth H year month (p_date p)) (payments g),
                filteredMealEntries =
                  filter (\<lambda>m. sameMonth H year month (e_meal_date m)) (mealEntries g)\<rparr>)"

definition getFilteredMembers :: "host \<Rightarrow> globals \<Rightarrow> member_rec list" where
  "getFilteredMembers H g =
     (if searchQuery g = [] then members g
      else
        let query = toLowerCase H (searchQuery g)
        in filter (\<lambda>m. sublist query (toLowerCase H (m_name m)) \<or>
                        (case m_phone m of None \<Rightarrow> False
                         | Some ph \<Rightarrow> ph \<noteq> [] \<and> sublist query ph))
             (members g))"

section \<open>Member class\<close>

record Member =
  this_id :: string
  this_name :: string
  this_phone :: string
  this_join_date :: string
  this_backendId :: string
  this_bills :: "bill_rec list"
  this_payments :: "payment_rec list"
  this_mealEntries :: "meal_entry_rec list"

definition new_Member ::
  "globals \<Rightarrow> member_rec \<Rightarrow> bill_rec list option \<Rightarrow> payment_rec list option \<Rightarrow>
     meal_entry_rec list option \<Rightarrow> Member" where
  \<comment> \<open>The constructor. An argument that is \<open>null\<close> (\<open>None\<close>) is replaced by the global
      collection; an array, also an empty one, is truthy and is kept.\<close>
  "new_Member g data usedBills usedPayments usedMealEntries =
     \<lparr>this_id = m_id data,
      this_name = m_name data,
      this_phone = (case m_phone data of None \<Rightarrow> [] | Some ph \<Rightarrow> ph),
      this_join_date = m_join_date data,
      this_backendId = m_backendId data,
      this_bills = (case usedBills of None \<Rightarrow> bills g | Some bs \<Rightarrow> bs),
      this_payments = (case usedPayments of None \<Rightarrow> payments g | Some ps \<Rightarrow> ps),
      this_mealEntries = (case usedMealEntries of None \<Rightarrow> mealEntries g | Some es \<Rightarrow> es)\<rparr>"

definition getMealCountForDate :: "Member \<Rightarrow> string \<Rightarrow> real" where
  "getMealCountForDate this date =
     (case find (\<lambda>m. e_member_id m = this_id this \<and> e_meal_date m = date)
             (this_mealEntries this) of
        None \<Rightarrow> 0
      | Some meal \<Rightarrow> e_meal_count meal)"

definition getMonthlyMealTotal :: "host \<Rightarrow> globals \<Rightarrow> Member \<Rightarrow> real" where
  "getMonthlyMealTotal H g this =
     (let year = getFullYear (currentDate g);
          month = getMonth (currentDate g)
      in foldl (\<lambda>sum m. sum + e_meal_count m) 0
           (filter
              (\<lambda>m. if e_member_id m \<noteq> this_id this then False
                   else (case Date H (e_meal_date m) of
                           None \<Rightarrow> False
                         | Some mealDate \<Rightarrow>
                             getFullYear mealDate = year \<and> getMonth mealDate = month))
              (this_mealEntries this)))"

definition getTotalPaid :: "Member \<Rightarrow> real" where
  "getTotalPaid this =
     (let memberPayments = filter (\<lambda>p. p_member_id p = this_id this) (this_payments this)
      in foldl (\<lambda>sum p. sum + p_amount p) 0 memberPayments)"

definition totalBillAmount :: "Member \<Rightarrow> real" where
  \<comment> \<open>the local constant \<open>totalBillAmount\<close> of \<open>getTotalBills\<close>\<close>
  "totalBillAmount this = foldl (\<lambda>sum b. sum + b_amount b) 0 (this_bills this)"

definition totalMeals :: "host \<Rightarrow> globals \<Rightarrow> Member \<Rightarrow> real" where
  \<comment> \<open>the local constant \<open>totalMeals\<close> of \<open>getTotalBills\<close>: over the global \<open>members\<close>,
      each with the collections of \<open>this\<close>\<close>
  "totalMeals H g this =
     foldl (\<lambda>sum m.
              let memberObj = new_Member g m (Some (this_bills this))
                                (Some (this_payments this)) (Some (this_mealEntries this))
              in sum + getMonthlyMealTotal H g memberObj)
       0 (members g)"

definition getTotalBills :: "host \<Rightarrow> globals \<Rightarrow> Member \<Rightarrow> num" where
  "getTotalBills H g this =
     (if totalMeals H g this = 0 then Finite 0
      else
        let mealRate = js_divide (totalBillAmount this) (totalMeals H g this)
        in num_times mealRate (getMonthlyMealTotal H g this))"

definition getTotalDue :: "host \<Rightarrow> globals \<Rightarrow> Member \<Rightarrow> num" where
  "getTotalDue H g this = Math_max0 (num_minus (getTotalBills H g this) (getTotalPaid this))"

section \<open>Manager class\<close>

definition totalExpense :: "globals \<Rightarrow> real" where
  "totalExpense g = foldl (\<lambda>sum b. sum + b_amount b) 0 (bills g)"

definition totalDeposits :: "globals \<Rightarrow> real" where
  "totalDeposits g =
     (let memberObjects = map (\<lambda>m. new_Member g m None None None) (members g)
      in foldl (\<lambda>sum m. sum + getTotalPaid m) 0 memberObjects)"

definition totalDue :: "host \<Rightarrow> globals \<Rightarrow> num" where
  "totalDue H g =
     (let memberObjects = map (\<lambda>m. new_Member g m None None None) (members g)
      in foldl (\<lambda>sum m. num_plus sum (getTotalDue H g m)) (Finite 0) memberObjects)"

record report_row =
  name :: string
  join_date :: string
  total_paid :: real
  total_bills :: num
  total_due :: num
  monthly_meals :: real

definition settlementReport :: "host \<Rightarrow> globals \<Rightarrow> report_row list" where
  "settlementReport H g =
     map (\<lambda>m.
            let memberObj = new_Member g m None None None
            in \<lparr>name = m_name m,
                join_date = m_join_date m,
                total_paid = getTotalPaid memberObj,
                total_bills = getTotalBills H g memberObj,
                total_due = getTotalDue H g memberObj,
                monthly_meals = getMonthlyMealTotal H g memberObj\<rparr>)
       (members g)"

section \<open>Callers of the engine\<close>

text \<open>
  \<open>renderMembersTable\<close> is the one caller of \<open>getFilteredData\<close>: it builds its member
  objects over the filtered collections and shows four numbers of each. The HTML around
  the numbers is not modelled. With no member it returns before building anything.
\<close>

definition renderMembersTable_memberObjects :: "host \<Rightarrow> globals \<Rightarrow> Member list" where
  "renderMembersTable_memberObjects H g =
     (if members g = [] then []
      else
        let fd = getFilteredData H g;
            displayMembers = getFilteredMembers H g
        in map (\<lambda>m. new_Member g m (Some (filteredBills fd)) (Some (filteredPayments fd))
                      (Some (filteredMealEntries fd)))
             displayMembers)"

record table_row =
  totalPaid :: real
  totalBills :: num
  totalDue_cell :: num
  monthlyMeals :: real

definition renderMembersTable_rows :: "host \<Rightarrow> globals \<Rightarrow> table_row list" where
  "renderMembersTable_rows H g =
     map (\<lambda>memberObj.
            \<lparr>totalPaid = getTotalPaid memberObj,
             totalBills = getTotalBills H g memberObj,
             totalDue_cell = getTotalDue H g memberObj,
             monthlyMeals = getMonthlyMealTotal H g memberObj\<rparr>)
       (renderMembersTable_memberObjects H g)"

text \<open>The two local constants \<open>totalMeals\<close> and \<open>mealRate\<close> of \<open>generatePDFReport\<close>.\<close>

definition generatePDFReport_totalMeals :: "host \<Rightarrow> globals \<Rightarrow> real" where
  "generatePDFReport_totalMeals H g =
     foldl (\<lambda>sum m.
              let memberObj = new_Member g m None None None
              in sum + getMonthlyMealTotal H g memberObj)
       0 (members g)"

definition generatePDFReport_mealRate :: "host \<Rightarrow> globals \<Rightarrow> num" where
  "generatePDFReport_mealRate H g =
     (if 0 < generatePDFReport_totalMeals H g
      then js_divide (totalExpense g) (generatePDFReport_totalMeals H g)
      else Finite 0)"

text \<open>The sum of a list of results, as \<open>reduce((sum, x) => sum + x, 0)\<close> computes it.\<close>

definition sum_num :: "num list \<Rightarrow> num" where
  "sum_num xs = foldl num_plus (Finite 0) xs"

section \<open>Calls as state transformers\<close>




section \<open>A host for the examples\<close>

text \<open>
  The theorems below hold for every host. The examples need one: \<open>exampleHost\<close> reads
  strings of decimal digits as numbers and the days of the calendar, written
  \<open>YYYY-MM-DD\<close>, as dates, as every ECMAScript host does in a time zone at or east of
  Greenwich (such a string is midnight UTC, and the getters give the local day, which
  there is the day written). Every other string is not a number and not a date for it.
  A browser reads more (signs, fractions, \<open>March 5, 2024\<close>); the examples use no such
  string: their only strings that are not dates are the empty string and \<open>soon\<close>, which
  no host reads as one.
\<close>

definition digit :: "char \<Rightarrow> nat option" where
  "digit c = map_of (zip ''0123456789'' [0, 1, 2, 3, 4, 5, 6, 7, 8, 9]) c"

fun decimal :: "nat \<Rightarrow> string \<Rightarrow> nat option" where
  "decimal n [] = Some n"
| "decimal n (c # cs) = (case digit c of None \<Rightarrow> None | Some d \<Rightarrow> decimal (10 * n + d) cs)"

definition example_Number :: "string \<Rightarrow> real option" where
  "example_Number s = map_option real (decimal 0 s)"

definition daysInMonth :: "nat \<Rightarrow> nat \<Rightarrow> nat" where
  "daysInMonth y m =
     (if m = 2 then
        (if y mod 400 = 0 then 29 else if y mod 100 = 0 then 28
         else if y mod 4 = 0 then 29 else 28)
      else if m = 4 \<or> m = 6 \<or> m = 9 \<or> m = 11 then 30 else 31)"

definition example_Date :: "string \<Rightarrow> jsDate option" where
  "example_Date s =
     (if length s = 10 \<and> s ! 4 = CHR ''-'' \<and> s ! 7 = CHR ''-'' then
        (case decimal 0 (take 4 s) of
           None \<Rightarrow> None
         | Some y \<Rightarrow>
             (case decimal 0 (take 2 (drop 5 s)) of
                None \<Rightarrow> None
              | Some m \<Rightarrow>
                  (case decimal 0 (drop 8 s) of
                     None \<Rightarrow> None
                   | Some d \<Rightarrow>
                       if 1 \<le> m \<and> m \<le> 12 \<and> 1 \<le> d \<and> d \<le> daysInMonth y m
                       then Some \<lparr>getFullYear = int y, getMonth = int m - 1\<rparr>
                       else None)))
      else None)"

definition example_toLowerCase :: "string \<Rightarrow> string" where
  "example_toLowerCase s =
     map (\<lambda>c. let n = (of_char c :: nat) in if 65 \<le> n \<and> n \<le> 90 then char_of (n + 32) else c) s"

definition exampleHost :: host where
  "exampleHost =
     \<lparr>Number = example_Number, Date = example_Date, toLowerCase = example_toLowerCase\<rparr>"

section \<open>Example states\<close>

text \<open>
  A house of two members in March 2024 (month 2 of \<open>getMonth\<close>): A eats 3 meals on each of
  ten days, B eats 2; one bill of 1000; A has paid 400 and 200, B nothing.
\<close>

definition memberA :: member_rec where
  "memberA = \<lparr>m_id = ''1'', m_name = ''A'', m_phone = Some ''01700000001'',
              m_join_date = ''2024-01-01'', m_backendId = ''local_1''\<rparr>"

definition memberB :: member_rec where
  "memberB = \<lparr>m_id = ''2'', m_name = ''B'', m_phone = None,
              m_join_date = ''2024-02-01'', m_backendId = ''local_2''\<rparr>"

definition memberC :: member_rec where
  "memberC = \<lparr>m_id = ''3'', m_name = ''C'', m_phone = None,
              m_join_date = ''2024-03-01'', m_backendId = ''local_3''\<rparr>"

definition marchDays :: "string list" where
  "marchDays = [''2024-03-01'', ''2024-03-02'', ''2024-03-03'', ''2024-03-04'', ''2024-03-05'',
                ''2024-03-06'', ''2024-03-07'', ''2024-03-08'', ''2024-03-09'', ''2024-03-10'']"

definition mealsOf :: "string \<Rightarrow> real \<Rightarrow> meal_entry_rec list" where
  "mealsOf i c =
     map (\<lambda>d. \<lparr>e_id = d @ ''_'' @ i, e_member_id = i, e_meal_date = d, e_meal_count = c\<rparr>)
       marchDays"

definition marchBill :: bill_rec where
  "marchBill = \<lparr>b_id = ''b1'', b_title = ''Market'', b_bill_type = ''market'', b_amount = 1000,
                b_date = ''2024-03-15'', b_split_type = ''equal'', b_participants = ''all''\<rparr>"

definition paymentA1 :: payment_rec where
  "paymentA1 = \<lparr>p_id = ''p1'', p_member_id = ''1'', p_amount = 400, p_date = ''2024-03-05'',
                p_payment_method = ''cash'', p_note = []\<rparr>"

definition paymentA2 :: payment_rec where
  "paymentA2 = \<lparr>p_id = ''p2'', p_member_id = ''1'', p_amount = 200, p_date = ''2024-03-20'',
                p_payment_method = ''bkash'', p_note = []\<rparr>"

definition house :: globals where
  "house =
     \<lparr>members = [memberA, memberB],
      bills = [marchBill],
      payments = [paymentA1, paymentA2],
      mealEntries = mealsOf ''1'' 3 @ mealsOf ''2'' 2,
      filterMonth = None,
      searchQuery = [],
      currentDate = \<lparr>getFullYear = 2024, getMonth = 2\<rparr>\<rparr>"

text \<open>The same house with the month cursor on April, where nobody has a meal yet.\<close>

definition houseInApril :: globals where
  "houseInApril = house\<lparr>currentDate := \<lparr>getFullYear = 2024, getMonth = 3\<rparr>\<rparr>"

text \<open>A third member, C, joins and has no meal entry.\<close>

definition houseOfThree :: globals where
  "houseOfThree = house\<lparr>members := [memberA, memberB, memberC]\<rparr>"

text \<open>
  Records of another month and records whose date does not parse, with March selected
  in the dashboard filter.
\<close>

definition aprilBill :: bill_rec where
  "aprilBill = \<lparr>b_id = ''b2'', b_title = ''Gas'', b_bill_type = ''gas'', b_amount = 300,
                b_date = ''2024-04-02'', b_split_type = ''equal'', b_participants = ''all''\<rparr>"

definition undatedBill :: bill_rec where
  "undatedBill = \<lparr>b_id = ''b3'', b_title = ''Rent'', b_bill_type = ''rent'', b_amount = 50,
                  b_date = ''soon'', b_split_type = ''equal'', b_participants = ''all''\<rparr>"

definition aprilPayment :: payment_rec where
  "aprilPayment = \<lparr>p_id = ''p3'', p_member_id = ''2'', p_amount = 100, p_date = ''2024-04-03'',
                   p_payment_method = ''cash'', p_note = []\<rparr>"

definition undatedMeal :: meal_entry_rec where
  "undatedMeal = \<lparr>e_id = ''e0'', e_member_id = ''1'', e_meal_date = [], e_meal_count = 1\<rparr>"

definition ledger :: globals where
  "ledger =
     house\<lparr>bills := [marchBill, aprilBill, undatedBill],
           payments := [paymentA1, aprilPayment, paymentA2],
           mealEntries := undatedMeal # mealsOf ''1'' 3 @ mealsOf ''2'' 2,
           filterMonth := Some ''2024-03''\<rparr>"

text \<open>A payment and a meal entry of a member, 9, who has been deleted.\<close>

definition danglingPayment :: payment_rec where
  "danglingPayment = \<lparr>p_id = ''p9'', p_member_id = ''9'', p_amount = 250,
                      p_date = ''2024-03-07'', p_payment_method = ''cash'', p_note = []\<rparr>"

definition danglingMeal :: meal_entry_rec where
  "danglingMeal = \<lparr>e_id = ''e9'', e_member_id = ''9'', e_meal_date = ''2024-03-02'',
                   e_meal_count = 4\<rparr>"

definition houseAfterDelete :: globals where
  "houseAfterDelete =
     house\<lparr>payments := [paymentA1, danglingPayment, paymentA2],
           mealEntries := mealsOf ''1'' 3 @ danglingMeal # mealsOf ''2'' 2\<rparr>"

text \<open>Two meal entries of A for the same day.\<close>

definition firstEntry :: meal_entry_rec where
  "firstEntry = \<lparr>e_id = ''e1'', e_member_id = ''1'', e_meal_date = ''2024-03-01'',
                 e_meal_count = 2\<rparr>"

definition secondEntry :: meal_entry_rec where
  "secondEntry = \<lparr>e_id = ''e2'', e_member_id = ''1'', e_meal_date = ''2024-03-01'',
                  e_meal_count = 3\<rparr>"

definition houseWithDuplicate :: globals where
  "houseWithDuplicate = house\<lparr>mealEntries := [firstEntry, secondEntry]\<rparr>"

text \<open>The house after A has paid 400 a second time: 1000 against a share of 600.\<close>

definition houseOverpaid :: globals where
  "houseOverpaid = house\<lparr>payments := [paymentA1, paymentA2, paymentA1]\<rparr>"

section \<open>Sums\<close>

lemma reduce_sum: "foldl (\<lambda>sum x. sum + f x) a xs = a + sum_list (map f xs)"
  for a :: real
  by (induction xs arbitrary: a) simp_all

lemma sum_num_Finite: "sum_num (map (\<lambda>x. Finite (f x)) xs) = Finite (sum_list (map f xs))"
proof -
  have "foldl num_plus (Finite a) (map (\<lambda>x. Finite (f x)) xs) = Finite (a + sum_list (map f xs))"
    for a
    by (induction xs arbitrary: a) simp_all
  from this [of 0] show ?thesis
    by (simp add: sum_num_def)
qed

section \<open>The constructor and the finite results\<close>

lemma new_Member_sel [simp]:
  "this_id (new_Member g m bs ps es) = m_id m"
  "this_bills (new_Member g m (Some b) ps es) = b"
  "this_payments (new_Member g m bs (Some p) es) = p"
  "this_mealEntries (new_Member g m bs ps (Some e)) = e"
  "this_bills (new_Member g m None ps es) = bills g"
  "this_payments (new_Member g m bs None es) = payments g"
  "this_mealEntries (new_Member g m bs ps None) = mealEntries g"
  by (simp_all add: new_Member_def)

text \<open>
  The division of \<open>getTotalBills\<close> stands behind the test \<open>totalMeals === 0\<close>: its divisor
  is never zero, and the result is a finite number in every state.
\<close>

lemma getTotalBills_Finite:
  "getTotalBills H g this =
     Finite (if totalMeals H g this = 0 then 0
             else totalBillAmount this / totalMeals H g this * getMonthlyMealTotal H g this)"
  by (simp add: getTotalBills_def js_divide_def Let_def)

lemma getTotalDue_Finite:
  "getTotalDue H g this =
     Finite (max 0 ((if totalMeals H g this = 0 then 0
                     else totalBillAmount this / totalMeals H g this *
                          getMonthlyMealTotal H g this) - getTotalPaid this))"
  by (simp add: getTotalDue_def getTotalBills_Finite)

lemma getMonthlyMealTotal_cong:
  "this_id a = this_id b \<Longrightarrow> this_mealEntries a = this_mealEntries b \<Longrightarrow>
   getMonthlyMealTotal H g a = getMonthlyMealTotal H g b"
  by (simp add: getMonthlyMealTotal_def)


lemma totalMeals_sum:
  "totalMeals H g this =
     sum_list (map (\<lambda>m. getMonthlyMealTotal H g
                          (new_Member g m (Some (this_bills this)) (Some (this_payments this))
                             (Some (this_mealEntries this))))
                 (members g))"
  by (simp add: totalMeals_def Let_def reduce_sum)

lemma totalMeals_globals:
  "totalMeals H g (new_Member g m None None None) = generatePDFReport_totalMeals H g"
proof -
  have "getMonthlyMealTotal H g
          (new_Member g x (Some (bills g)) (Some (payments g)) (Some (mealEntries g))) =
        getMonthlyMealTotal H g (new_Member g x None None None)" for x
    by (rule getMonthlyMealTotal_cong) simp_all
  then show ?thesis
    by (simp add: totalMeals_def generatePDFReport_totalMeals_def Let_def)
qed

lemma totalBillAmount_globals:
  "totalBillAmount (new_Member g m None None None) = totalExpense g"
  by (simp add: totalBillAmount_def totalExpense_def)


lemmas example_defs =
  exampleHost_def example_Date_def example_Number_def digit_def daysInMonth_def
  memberA_def memberB_def memberC_def marchDays_def mealsOf_def marchBill_def
  paymentA1_def paymentA2_def house_def houseInApril_def houseOfThree_def
  aprilBill_def undatedBill_def aprilPayment_def undatedMeal_def ledger_def
  danglingPayment_def danglingMeal_def houseAfterDelete_def
  firstEntry_def secondEntry_def houseWithDuplicate_def houseOverpaid_def

section \<open>The allocation\<close>



text \<open>
  Claim C2. In every state whose total of monthly meals over all members is 0, the meal
  rate is 0 and \<open>getTotalBills()\<close> is 0 for every member, whatever the bills are. The
  rate is the one \<open>generatePDFReport\<close> prints; \<open>getTotalBills\<close> returns before it computes
  one. Both results are the finite number 0: no division by zero has happened, which
  would have left NaN or an infinity.
\<close>

theorem zero_total_meals:
  assumes "generatePDFReport_totalMeals H g = 0"
  shows "generatePDFReport_mealRate H g = Finite 0 \<and>
         (\<forall>m. totalMeals H g (new_Member g m None None None) = 0 \<and>
              getTotalBills H g (new_Member g m None None None) = Finite 0)"
  using assms
  by (simp add: generatePDFReport_mealRate_def getTotalBills_def totalMeals_globals)

theorem zero_total_meals_witness:
  "generatePDFReport_totalMeals exampleHost houseInApril = 0 \<and>
   totalExpense houseInApril = 1000 \<and>
   generatePDFReport_mealRate exampleHost houseInApril = Finite 0 \<and>
   getTotalBills exampleHost houseInApril (new_Member houseInApril memberA None None None) =
     Finite 0 \<and>
   getTotalBills exampleHost houseInApril (new_Member houseInApril memberB None None None) =
     Finite 0"
proof -
  have h: "generatePDFReport_totalMeals exampleHost houseInApril = 0"
    by code_simp
  have e: "totalExpense houseInApril = 1000"
    by code_simp
  from zero_total_meals [OF h] h e show ?thesis
    by simp
qed

text \<open>The same for a member object over any collections, as the members table builds them.\<close>

lemma getTotalBills_zero_total:
  "totalMeals H g this = 0 \<Longrightarrow> getTotalBills H g this = Finite 0"
  by (simp add: getTotalBills_def)



section \<open>The due\<close>

text \<open>
  Claim C3. For every member object and every state, \<open>getTotalDue()\<close> is
  \<open>max(0, getTotalBills() - getTotalPaid())\<close>, a finite number that is never negative. In
  the example A has paid 1000 against a share of 600, and the due is 0.
\<close>

theorem getTotalDue_floored:
  "\<exists>b d. getTotalBills H g this = Finite b \<and> getTotalDue H g this = Finite d \<and>
         d = max 0 (b - getTotalPaid this) \<and> 0 \<le> d"
  by (simp add: getTotalBills_Finite getTotalDue_Finite)

theorem getTotalDue_floored_witness:
  "getTotalBills exampleHost houseOverpaid (new_Member houseOverpaid memberA None None None) =
     Finite 600 \<and>
   getTotalPaid (new_Member houseOverpaid memberA None None None) = 1000 \<and>
   getTotalDue exampleHost houseOverpaid (new_Member houseOverpaid memberA None None None) =
     Finite 0"
proof -
  let ?a = "new_Member houseOverpaid memberA None None None"
  have share: "getTotalBills exampleHost houseOverpaid ?a = Finite 600"
    by code_simp
  have paid: "getTotalPaid ?a = 1000"
    by code_simp
  from getTotalDue_floored [of exampleHost houseOverpaid ?a]
  obtain b d where "getTotalBills exampleHost houseOverpaid ?a = Finite b"
    and "getTotalDue exampleHost houseOverpaid ?a = Finite d"
    and "d = max 0 (b - getTotalPaid ?a)"
    by blast
  with share paid show ?thesis
    by simp
qed

text \<open>
  Claim C4. Two members, A with 30 meals in the displayed month and B with 20, and one
  bill of 1000: the meal rate is 20 (the one \<open>generatePDFReport\<close> prints and the one
  \<open>getTotalBills\<close> multiplies by), A's share is 600 and B's is 400; when A has paid 600
  and B nothing, A's due is 0 and B's is 400. The example is the house of two members.
\<close>

theorem scenario_two_members:
  assumes "members g = [a, b]"
    and "bills g = [bill]" and "b_amount bill = 1000"
    and "getMonthlyMealTotal H g (new_Member g a None None None) = 30"
    and "getMonthlyMealTotal H g (new_Member g b None None None) = 20"
    and "getTotalPaid (new_Member g a None None None) = 600"
    and "getTotalPaid (new_Member g b None None None) = 0"
  shows "generatePDFReport_mealRate H g = Finite 20 \<and>
         js_divide (totalBillAmount (new_Member g a None None None))
           (totalMeals H g (new_Member g a None None None)) = Finite 20 \<and>
         getTotalBills H g (new_Member g a None None None) = Finite 600 \<and>
         getTotalBills H g (new_Member g b None None None) = Finite 400 \<and>
         getTotalDue H g (new_Member g a None None None) = Finite 0 \<and>
         getTotalDue H g (new_Member g b None None None) = Finite 400"
proof -
  have tm: "generatePDFReport_totalMeals H g = 50"
    using assms by (simp add: generatePDFReport_totalMeals_def Let_def)
  have te: "totalExpense g = 1000"
    using assms by (simp add: totalExpense_def)
  show ?thesis
    using assms tm te
    by (simp add: generatePDFReport_mealRate_def js_divide_def getTotalBills_Finite
        getTotalDue_Finite totalMeals_globals totalBillAmount_globals)
qed

theorem scenario_two_members_witness:
  "members house = [memberA, memberB] \<and> bills house = [marchBill] \<and>
   b_amount marchBill = 1000 \<and>
   getMonthlyMealTotal exampleHost house (new_Member house memberA None None None) = 30 \<and>
   getMonthlyMealTotal exampleHost house (new_Member house memberB None None None) = 20 \<and>
   getTotalPaid (new_Member house memberA None None None) = 600 \<and>
   getTotalPaid (new_Member house memberB None None None) = 0 \<and>
   generatePDFReport_mealRate exampleHost house = Finite 20 \<and>
   getTotalBills exampleHost house (new_Member house memberA None None None) = Finite 600 \<and>
   getTotalBills exampleHost house (new_Member house memberB None None None) = Finite 400 \<and>
   getTotalDue exampleHost house (new_Member house memberA None None None) = Finite 0 \<and>
   getTotalDue exampleHost house (new_Member house memberB None None None) = Finite 400"
proof -
  have 1: "members house = [memberA, memberB]"
    by (simp add: house_def)
  have 2: "bills house = [marchBill]"
    by (simp add: house_def)
  have 3: "b_amount marchBill = 1000"
    by (simp add: marchBill_def)
  have 4: "getMonthlyMealTotal exampleHost house (new_Member house memberA None None None) = 30"
    by code_simp
  have 5: "getMonthlyMealTotal exampleHost house (new_Member house memberB None None None) = 20"
    by code_simp
  have 6: "getTotalPaid (new_Member house memberA None None None) = 600"
    by code_simp
  have 7: "getTotalPaid (new_Member house memberB None None None) = 0"
    by code_simp
  from scenario_two_members [OF 1 2 3 4 5 6 7] 1 2 3 4 5 6 7 show ?thesis
    by simp
qed

section \<open>The time filter\<close>



section \<open>Dangling references\<close>

lemma totalDeposits_sum:
  "totalDeposits g = sum_list (map (\<lambda>m. getTotalPaid (new_Member g m None None None)) (members g))"
  by (simp add: totalDeposits_def Let_def reduce_sum comp_def)

lemma totalDue_sum_num:
  "totalDue H g = sum_num (map (\<lambda>m. getTotalDue H g (new_Member g m None None None)) (members g))"
  by (simp add: totalDue_def sum_num_def Let_def foldl_map)

lemma totalDue_Finite: "\<exists>d. totalDue H g = Finite d"
  by (simp add: totalDue_sum_num getTotalDue_Finite sum_num_Finite)

lemma getTotalPaid_drop:
  assumes "this_id a = this_id b" and "p_member_id p \<noteq> this_id a"
    and "this_payments a = xs @ p # ys" and "this_payments b = xs @ ys"
  shows "getTotalPaid a = getTotalPaid b"
  using assms by (simp add: getTotalPaid_def)

lemma getMonthlyMealTotal_drop:
  assumes "this_id a = this_id b" and "e_member_id e \<noteq> this_id a"
    and "this_mealEntries a = us @ e # vs" and "this_mealEntries b = us @ vs"
    and "currentDate g = currentDate g'"
  shows "getMonthlyMealTotal H g a = getMonthlyMealTotal H g' b"
  using assms by (simp add: getMonthlyMealTotal_def)

lemma getMonthlyMealTotal_same:
  assumes "this_id a = this_id b" and "this_mealEntries a = this_mealEntries b"
    and "currentDate g = currentDate g'"
  shows "getMonthlyMealTotal H g a = getMonthlyMealTotal H g' b"
  using assms by (simp add: getMonthlyMealTotal_def)

text \<open>
  The share of a member object is a function of the total of its bills, of the total of
  meals and of its own meals.
\<close>

lemma getTotalBills_eqI:
  assumes "totalBillAmount a = totalBillAmount b"
    and "totalMeals H g a = totalMeals H g' b"
    and "getMonthlyMealTotal H g a = getMonthlyMealTotal H g' b"
  shows "getTotalBills H g a = getTotalBills H g' b"
  using assms by (simp add: getTotalBills_def)

lemma dangling_payment:
  assumes dang: "\<forall>m \<in> set (members g). m_id m \<noteq> p_member_id p"
    and pay: "payments g = xs @ p # ys"
  shows "\<forall>m \<in> set (members g).
           getTotalPaid (new_Member g m None None None) =
             getTotalPaid (new_Member (g\<lparr>payments := xs @ ys\<rparr>) m None None None) \<and>
           getMonthlyMealTotal H g (new_Member g m None None None) =
             getMonthlyMealTotal H (g\<lparr>payments := xs @ ys\<rparr>) (new_Member (g\<lparr>payments := xs @ ys\<rparr>) m None None None) \<and>
           getTotalBills H g (new_Member g m None None None) =
             getTotalBills H (g\<lparr>payments := xs @ ys\<rparr>) (new_Member (g\<lparr>payments := xs @ ys\<rparr>) m None None None) \<and>
           getTotalDue H g (new_Member g m None None None) =
             getTotalDue H (g\<lparr>payments := xs @ ys\<rparr>) (new_Member (g\<lparr>payments := xs @ ys\<rparr>) m None None None)"
proof
  fix m
  assume m: "m \<in> set (members g)"
  let ?g' = "g\<lparr>payments := xs @ ys\<rparr>"
  let ?a = "new_Member g m None None None" and ?b = "new_Member ?g' m None None None"
  have paid: "getTotalPaid ?a = getTotalPaid ?b"
    using dang m pay by (intro getTotalPaid_drop [where p = p and xs = xs and ys = ys]) auto
  have meals: "getMonthlyMealTotal H g ?a = getMonthlyMealTotal H ?g' ?b"
    by (rule getMonthlyMealTotal_same) simp_all
  have tm: "totalMeals H g ?a = totalMeals H ?g' ?b"
    by (simp add: totalMeals_def getMonthlyMealTotal_def)
  have tb: "totalBillAmount ?a = totalBillAmount ?b"
    by (simp add: totalBillAmount_def)
  have share: "getTotalBills H g ?a = getTotalBills H ?g' ?b"
    using tb tm meals by (rule getTotalBills_eqI)
  have due: "getTotalDue H g ?a = getTotalDue H ?g' ?b"
    by (simp add: getTotalDue_def share paid)
  from paid meals share due
  show "getTotalPaid ?a = getTotalPaid ?b \<and>
        getMonthlyMealTotal H g ?a = getMonthlyMealTotal H ?g' ?b \<and>
        getTotalBills H g ?a = getTotalBills H ?g' ?b \<and>
        getTotalDue H g ?a = getTotalDue H ?g' ?b"
    by simp
qed

lemma dangling_meal:
  assumes dang: "\<forall>m \<in> set (members g). m_id m \<noteq> e_member_id e"
    and meal: "mealEntries g = us @ e # vs"
  shows "\<forall>m \<in> set (members g).
           getTotalPaid (new_Member g m None None None) =
             getTotalPaid (new_Member (g\<lparr>mealEntries := us @ vs\<rparr>) m None None None) \<and>
           getMonthlyMealTotal H g (new_Member g m None None None) =
             getMonthlyMealTotal H (g\<lparr>mealEntries := us @ vs\<rparr>) (new_Member (g\<lparr>mealEntries := us @ vs\<rparr>) m None None None) \<and>
           getTotalBills H g (new_Member g m None None None) =
             getTotalBills H (g\<lparr>mealEntries := us @ vs\<rparr>) (new_Member (g\<lparr>mealEntries := us @ vs\<rparr>) m None None None) \<and>
           getTotalDue H g (new_Member g m None None None) =
             getTotalDue H (g\<lparr>mealEntries := us @ vs\<rparr>) (new_Member (g\<lparr>mealEntries := us @ vs\<rparr>) m None None None)"
proof
  fix m
  assume m: "m \<in> set (members g)"
  let ?g' = "g\<lparr>mealEntries := us @ vs\<rparr>"
  let ?a = "new_Member g m None None None" and ?b = "new_Member ?g' m None None None"
  have paid: "getTotalPaid ?a = getTotalPaid ?b"
    by (simp add: getTotalPaid_def)
  have drop: "getMonthlyMealTotal H g (new_Member g x bs ps (Some (us @ e # vs))) =
              getMonthlyMealTotal H ?g' (new_Member ?g' x bs' ps' (Some (us @ vs)))"
    if "x \<in> set (members g)" for x bs ps bs' ps'
    using dang that
    by (intro getMonthlyMealTotal_drop [where e = e and us = us and vs = vs]) auto
  have meals: "getMonthlyMealTotal H g ?a = getMonthlyMealTotal H ?g' ?b"
    using dang m meal
    by (intro getMonthlyMealTotal_drop [where e = e and us = us and vs = vs]) auto
  let ?l = "\<lambda>x. getMonthlyMealTotal H g
                  (new_Member g x (Some (bills g)) (Some (payments g)) (Some (us @ e # vs)))"
  let ?r = "\<lambda>x. getMonthlyMealTotal H ?g'
                  (new_Member ?g' x (Some (bills g)) (Some (payments g)) (Some (us @ vs)))"
  have sums: "sum_list (map ?l (members g)) = sum_list (map ?r (members g))"
    by (rule arg_cong [where f = sum_list], rule map_cong [OF refl], rule drop)
  have l: "totalMeals H g ?a = sum_list (map ?l (members g))"
    using meal by (simp add: totalMeals_sum)
  have r: "totalMeals H ?g' ?b = sum_list (map ?r (members g))"
    by (simp add: totalMeals_sum)
  have tm: "totalMeals H g ?a = totalMeals H ?g' ?b"
    by (simp only: l r sums)
  have tb: "totalBillAmount ?a = totalBillAmount ?b"
    by (simp add: totalBillAmount_def)
  have share: "getTotalBills H g ?a = getTotalBills H ?g' ?b"
    using tb tm meals by (rule getTotalBills_eqI)
  have due: "getTotalDue H g ?a = getTotalDue H ?g' ?b"
    by (simp add: getTotalDue_def share paid)
  from paid meals share due
  show "getTotalPaid ?a = getTotalPaid ?b \<and>
        getMonthlyMealTotal H g ?a = getMonthlyMealTotal H ?g' ?b \<and>
        getTotalBills H g ?a = getTotalBills H ?g' ?b \<and>
        getTotalDue H g ?a = getTotalDue H ?g' ?b"
    by simp
qed

text \<open>The aggregates are functions of the members and of the four results of each.\<close>

lemma aggregates_eqI:
  assumes "members g = members g'"
    and "\<forall>m \<in> set (members g).
           getTotalPaid (new_Member g m None None None) =
             getTotalPaid (new_Member g' m None None None) \<and>
           getMonthlyMealTotal H g (new_Member g m None None None) =
             getMonthlyMealTotal H g' (new_Member g' m None None None) \<and>
           getTotalBills H g (new_Member g m None None None) =
             getTotalBills H g' (new_Member g' m None None None) \<and>
           getTotalDue H g (new_Member g m None None None) =
             getTotalDue H g' (new_Member g' m None None None)"
  shows "settlementReport H g = settlementReport H g' \<and> totalDeposits g = totalDeposits g' \<and>
         totalDue H g = totalDue H g'"
proof -
  have "settlementReport H g = settlementReport H g'"
    using assms by (simp add: settlementReport_def Let_def cong: map_cong)
  moreover have "totalDeposits g = totalDeposits g'"
    using assms by (simp add: totalDeposits_sum cong: map_cong)
  moreover have "totalDue H g = totalDue H g'"
    using assms by (simp add: totalDue_sum_num cong: map_cong)
  ultimately show ?thesis by simp
qed

text \<open>
  Claim C6. A payment or a meal entry whose \<open>member_id\<close> is the identifier of no member
  counts for nobody: with it in the payments (in the meal entries), the four results of
  every member and \<open>settlementReport()\<close>, \<open>totalExpense()\<close>, \<open>totalDeposits()\<close> and \<open>totalDue()\<close>
  are what they are in the state without it. Every operation returns, and what it
  returns is a finite number, in every state.
\<close>

theorem dangling_records_excluded:
  "(payments g = xs @ p # ys \<and> (\<forall>m \<in> set (members g). m_id m \<noteq> p_member_id p) \<longrightarrow>
      settlementReport H g = settlementReport H (g\<lparr>payments := xs @ ys\<rparr>) \<and>
      totalExpense g = totalExpense (g\<lparr>payments := xs @ ys\<rparr>) \<and>
      totalDeposits g = totalDeposits (g\<lparr>payments := xs @ ys\<rparr>) \<and>
      totalDue H g = totalDue H (g\<lparr>payments := xs @ ys\<rparr>) \<and>
      (\<forall>m \<in> set (members g).
         getTotalPaid (new_Member g m None None None) =
           getTotalPaid (new_Member (g\<lparr>payments := xs @ ys\<rparr>) m None None None) \<and>
         getMonthlyMealTotal H g (new_Member g m None None None) =
           getMonthlyMealTotal H (g\<lparr>payments := xs @ ys\<rparr>)
             (new_Member (g\<lparr>payments := xs @ ys\<rparr>) m None None None) \<and>
         getTotalBills H g (new_Member g m None None None) =
           getTotalBills H (g\<lparr>payments := xs @ ys\<rparr>)
             (new_Member (g\<lparr>payments := xs @ ys\<rparr>) m None None None) \<and>
         getTotalDue H g (new_Member g m None None None) =
           getTotalDue H (g\<lparr>payments := xs @ ys\<rparr>)
             (new_Member (g\<lparr>payments := xs @ ys\<rparr>) m None None None))) \<and>
   (mealEntries g = us @ e # vs \<and> (\<forall>m \<in> set (members g). m_id m \<noteq> e_member_id e) \<longrightarrow>
      settlementReport H g = settlementReport H (g\<lparr>mealEntries := us @ vs\<rparr>) \<and>
      totalExpense g = totalExpense (g\<lparr>mealEntries := us @ vs\<rparr>) \<and>
      totalDeposits g = totalDeposits (g\<lparr>mealEntries := us @ vs\<rparr>) \<and>
      totalDue H g = totalDue H (g\<lparr>mealEntries := us @ vs\<rparr>) \<and>
      (\<forall>m \<in> set (members g).
         getTotalPaid (new_Member g m None None None) =
           getTotalPaid (new_Member (g\<lparr>mealEntries := us @ vs\<rparr>) m None None None) \<and>
         getMonthlyMealTotal H g (new_Member g m None None None) =
           getMonthlyMealTotal H (g\<lparr>mealEntries := us @ vs\<rparr>)
             (new_Member (g\<lparr>mealEntries := us @ vs\<rparr>) m None None None) \<and>
         getTotalBills H g (new_Member g m None None None) =
           getTotalBills H (g\<lparr>mealEntries := us @ vs\<rparr>)
             (new_Member (g\<lparr>mealEntries := us @ vs\<rparr>) m None None None) \<and>
         getTotalDue H g (new_Member g m None None None) =
           getTotalDue H (g\<lparr>mealEntries := us @ vs\<rparr>)
             (new_Member (g\<lparr>mealEntries := us @ vs\<rparr>) m None None None))) \<and>
   (\<exists>d. totalDue H g = Finite d) \<and>
   (\<forall>this. \<exists>b d. getTotalBills H g this = Finite b \<and> getTotalDue H g this = Finite d)"
proof -
  have payment: "(payments g = xs @ p # ys \<and> (\<forall>m \<in> set (members g). m_id m \<noteq> p_member_id p) \<longrightarrow>
      settlementReport H g = settlementReport H (g\<lparr>payments := xs @ ys\<rparr>) \<and>
      totalExpense g = totalExpense (g\<lparr>payments := xs @ ys\<rparr>) \<and>
      totalDeposits g = totalDeposits (g\<lparr>payments := xs @ ys\<rparr>) \<and>
      totalDue H g = totalDue H (g\<lparr>payments := xs @ ys\<rparr>) \<and>
      (\<forall>m \<in> set (members g).
         getTotalPaid (new_Member g m None None None) =
           getTotalPaid (new_Member (g\<lparr>payments := xs @ ys\<rparr>) m None None None) \<and>
         getMonthlyMealTotal H g (new_Member g m None None None) =
           getMonthlyMealTotal H (g\<lparr>payments := xs @ ys\<rparr>)
             (new_Member (g\<lparr>payments := xs @ ys\<rparr>) m None None None) \<and>
         getTotalBills H g (new_Member g m None None None) =
           getTotalBills H (g\<lparr>payments := xs @ ys\<rparr>)
             (new_Member (g\<lparr>payments := xs @ ys\<rparr>) m None None None) \<and>
         getTotalDue H g (new_Member g m None None None) =
           getTotalDue H (g\<lparr>payments := xs @ ys\<rparr>)
             (new_Member (g\<lparr>payments := xs @ ys\<rparr>) m None None None)))"
  proof (rule impI)
    assume a: "payments g = xs @ p # ys \<and> (\<forall>m \<in> set (members g). m_id m \<noteq> p_member_id p)"
    let ?g' = "g\<lparr>payments := xs @ ys\<rparr>"
    have each: "\<forall>m \<in> set (members g).
           getTotalPaid (new_Member g m None None None) =
             getTotalPaid (new_Member ?g' m None None None) \<and>
           getMonthlyMealTotal H g (new_Member g m None None None) =
             getMonthlyMealTotal H ?g' (new_Member ?g' m None None None) \<and>
           getTotalBills H g (new_Member g m None None None) =
             getTotalBills H ?g' (new_Member ?g' m None None None) \<and>
           getTotalDue H g (new_Member g m None None None) =
             getTotalDue H ?g' (new_Member ?g' m None None None)"
      using a by (intro dangling_payment) simp_all
    have expense: "totalExpense g = totalExpense ?g'"
      by (simp add: totalExpense_def)
    have "members g = members ?g'"
      by simp
    from aggregates_eqI [OF this each] expense each
    show "settlementReport H g = settlementReport H ?g' \<and>
        totalExpense g = totalExpense ?g' \<and>
        totalDeposits g = totalDeposits ?g' \<and>
        totalDue H g = totalDue H ?g' \<and>
        (\<forall>m \<in> set (members g).
           getTotalPaid (new_Member g m None None None) =
             getTotalPaid (new_Member ?g' m None None None) \<and>
           getMonthlyMealTotal H g (new_Member g m None None None) =
             getMonthlyMealTotal H ?g' (new_Member ?g' m None None None) \<and>
           getTotalBills H g (new_Member g m None None None) =
             getTotalBills H ?g' (new_Member ?g' m None None None) \<and>
           getTotalDue H g (new_Member g m None None None) =
             getTotalDue H ?g' (new_Member ?g' m None None None))"
      by (simp only: simp_thms)
  qed
  have meal: "(mealEntries g = us @ e # vs \<and> (\<forall>m \<in> set (members g). m_id m \<noteq> e_member_id e) \<longrightarrow>
      settlementReport H g = settlementReport H (g\<lparr>mealEntries := us @ vs\<rparr>) \<and>
      totalExpense g = totalExpense (g\<lparr>mealEntries := us @ vs\<rparr>) \<and>
      totalDeposits g = totalDeposits (g\<lparr>mealEntries := us @ vs\<rparr>) \<and>
      totalDue H g = totalDue H (g\<lparr>mealEntries := us @ vs\<rparr>) \<and>
      (\<forall>m \<in> set (members g).
         getTotalPaid (new_Member g m None None None) =
           getTotalPaid (new_Member (g\<lparr>mealEntries := us @ vs\<rparr>) m None None None) \<and>
         getMonthlyMealTotal H g (new_Member g m None None None) =
           getMonthlyMealTotal H (g\<lparr>mealEntries := us @ vs\<rparr>)
             (new_Member (g\<lparr>mealEntries := us @ vs\<rparr>) m None None None) \<and>
         getTotalBills H g (new_Member g m None None None) =
           getTotalBills H (g\<lparr>mealEntries := us @ vs\<rparr>)
             (new_Member (g\<lparr>mealEntries := us @ vs\<rparr>) m None None None) \<and>
         getTotalDue H g (new_Member g m None None None) =
           getTotalDue H (g\<lparr>mealEntries := us @ vs\<rparr>)
             (new_Member (g\<lparr>mealEntries := us @ vs\<rparr>) m None None None)))"
  proof (rule impI)
    assume a: "mealEntries g = us @ e # vs \<and> (\<forall>m \<in> set (members g). m_id m \<noteq> e_member_id e)"
    let ?g' = "g\<lparr>mealEntries := us @ vs\<rparr>"
    have each: "\<forall>m \<in> set (members g).
           getTotalPaid (new_Member g m None None None) =
             getTotalPaid (new_Member ?g' m None None None) \<and>
           getMonthlyMealTotal H g (new_Member g m None None None) =
             getMonthlyMealTotal H ?g' (new_Member ?g' m None None None) \<and>
           getTotalBills H g (new_Member g m None None None) =
             getTotalBills H ?g' (new_Member ?g' m None None None) \<and>
           getTotalDue H g (new_Member g m None None None) =
             getTotalDue H ?g' (new_Member ?g' m None None None)"
      using a by (intro dangling_meal) simp_all
    have expense: "totalExpense g = totalExpense ?g'"
      by (simp add: totalExpense_def)
    have "members g = members ?g'"
      by simp
    from aggregates_eqI [OF this each] expense each
    show "settlementReport H g = settlementReport H ?g' \<and>
        totalExpense g = totalExpense ?g' \<and>
        totalDeposits g = totalDeposits ?g' \<and>
        totalDue H g = totalDue H ?g' \<and>
        (\<forall>m \<in> set (members g).
           getTotalPaid (new_Member g m None None None) =
             getTotalPaid (new_Member ?g' m None None None) \<and>
           getMonthlyMealTotal H g (new_Member g m None None None) =
             getMonthlyMealTotal H ?g' (new_Member ?g' m None None None) \<and>
           getTotalBills H g (new_Member g m None None None) =
             getTotalBills H ?g' (new_Member ?g' m None None None) \<and>
           getTotalDue H g (new_Member g m None None None) =
             getTotalDue H ?g' (new_Member ?g' m None None None))"
      by (simp only: simp_thms)
  qed
  have due: "\<exists>d. totalDue H g = Finite d"
    by (rule totalDue_Finite)
  have finite: "\<forall>this. \<exists>b d. getTotalBills H g this = Finite b \<and> getTotalDue H g this = Finite d"
    by (simp add: getTotalBills_Finite getTotalDue_Finite)
  show ?thesis
    by (rule conjI [OF payment conjI [OF meal conjI [OF due finite]]])
qed

theorem dangling_records_excluded_witness:
  "members houseAfterDelete = [memberA, memberB] \<and>
   m_id memberA \<noteq> p_member_id danglingPayment \<and> m_id memberB \<noteq> p_member_id danglingPayment \<and>
   m_id memberA \<noteq> e_member_id danglingMeal \<and> m_id memberB \<noteq> e_member_id danglingMeal \<and>
   payments houseAfterDelete = [paymentA1] @ danglingPayment # [paymentA2] \<and>
   mealEntries houseAfterDelete = mealsOf ''1'' 3 @ danglingMeal # mealsOf ''2'' 2 \<and>
   settlementReport exampleHost houseAfterDelete =
     settlementReport exampleHost (houseAfterDelete\<lparr>payments := [paymentA1] @ [paymentA2]\<rparr>) \<and>
   settlementReport exampleHost houseAfterDelete =
     settlementReport exampleHost
       (houseAfterDelete\<lparr>mealEntries := mealsOf ''1'' 3 @ mealsOf ''2'' 2\<rparr>) \<and>
   totalDeposits houseAfterDelete =
     totalDeposits (houseAfterDelete\<lparr>payments := [paymentA1] @ [paymentA2]\<rparr>) \<and>
   totalDeposits houseAfterDelete = 600 \<and>
   getTotalBills exampleHost houseAfterDelete
     (new_Member houseAfterDelete memberA None None None) =
   getTotalBills exampleHost (houseAfterDelete\<lparr>mealEntries := mealsOf ''1'' 3 @ mealsOf ''2'' 2\<rparr>)
     (new_Member (houseAfterDelete\<lparr>mealEntries := mealsOf ''1'' 3 @ mealsOf ''2'' 2\<rparr>)
        memberA None None None) \<and>
   getTotalBills exampleHost houseAfterDelete
     (new_Member houseAfterDelete memberA None None None) = Finite 600"
proof -
  have mem: "members houseAfterDelete = [memberA, memberB]"
    by (simp add: houseAfterDelete_def house_def)
  have ids: "m_id memberA \<noteq> p_member_id danglingPayment"
    "m_id memberB \<noteq> p_member_id danglingPayment"
    "m_id memberA \<noteq> e_member_id danglingMeal"
    "m_id memberB \<noteq> e_member_id danglingMeal"
    by (simp_all add: memberA_def memberB_def danglingPayment_def danglingMeal_def)
  have pay: "payments houseAfterDelete = [paymentA1] @ danglingPayment # [paymentA2]"
    by (simp add: houseAfterDelete_def)
  have meal: "mealEntries houseAfterDelete = mealsOf ''1'' 3 @ danglingMeal # mealsOf ''2'' 2"
    by (simp add: houseAfterDelete_def)
  have nobodyP: "\<forall>m \<in> set (members houseAfterDelete). m_id m \<noteq> p_member_id danglingPayment"
    using ids by (simp add: mem)
  have nobodyE: "\<forall>m \<in> set (members houseAfterDelete). m_id m \<noteq> e_member_id danglingMeal"
    using ids by (simp add: mem)
  note inst = dangling_records_excluded [of houseAfterDelete "[paymentA1]" danglingPayment
      "[paymentA2]" exampleHost "mealsOf ''1'' 3" danglingMeal "mealsOf ''2'' 2"]
  have rp: "settlementReport exampleHost houseAfterDelete =
     settlementReport exampleHost (houseAfterDelete\<lparr>payments := [paymentA1] @ [paymentA2]\<rparr>)"
    and dp: "totalDeposits houseAfterDelete =
     totalDeposits (houseAfterDelete\<lparr>payments := [paymentA1] @ [paymentA2]\<rparr>)"
    using inst pay nobodyP by blast+
  have re: "settlementReport exampleHost houseAfterDelete =
     settlementReport exampleHost
       (houseAfterDelete\<lparr>mealEntries := mealsOf ''1'' 3 @ mealsOf ''2'' 2\<rparr>)"
    using inst meal nobodyE by blast
  have "memberA \<in> set (members houseAfterDelete)"
    by (simp add: mem)
  with inst meal nobodyE
  have be: "getTotalBills exampleHost houseAfterDelete
     (new_Member houseAfterDelete memberA None None None) =
   getTotalBills exampleHost (houseAfterDelete\<lparr>mealEntries := mealsOf ''1'' 3 @ mealsOf ''2'' 2\<rparr>)
     (new_Member (houseAfterDelete\<lparr>mealEntries := mealsOf ''1'' 3 @ mealsOf ''2'' 2\<rparr>)
        memberA None None None)"
    by blast
  have d600: "totalDeposits houseAfterDelete = 600"
    by code_simp
  have b600: "getTotalBills exampleHost houseAfterDelete
     (new_Member houseAfterDelete memberA None None None) = Finite 600"
    by code_simp
  from mem ids pay meal rp re dp d600 be b600 show ?thesis
    by (simp only: simp_thms)
qed

section \<open>Frame\<close>


section \<open>The dashboard filter\<close>

lemma filterMonth_irrelevant:
  "new_Member (g\<lparr>filterMonth := f\<rparr>) m bs ps es = new_Member g m bs ps es"
  "getMonthlyMealTotal H (g\<lparr>filterMonth := f\<rparr>) this = getMonthlyMealTotal H g this"
  "totalMeals H (g\<lparr>filterMonth := f\<rparr>) this = totalMeals H g this"
  "getTotalBills H (g\<lparr>filterMonth := f\<rparr>) this = getTotalBills H g this"
  "getTotalDue H (g\<lparr>filterMonth := f\<rparr>) this = getTotalDue H g this"
proof -
  show n: "new_Member (g\<lparr>filterMonth := f\<rparr>) m bs ps es = new_Member g m bs ps es"
    for m bs ps es
    by (simp add: new_Member_def split: option.splits)
  show a: "getMonthlyMealTotal H (g\<lparr>filterMonth := f\<rparr>) this = getMonthlyMealTotal H g this"
    for this
    by (simp add: getMonthlyMealTotal_def)
  show b: "totalMeals H (g\<lparr>filterMonth := f\<rparr>) this = totalMeals H g this" for this
    by (simp add: totalMeals_def n a)
  show c: "getTotalBills H (g\<lparr>filterMonth := f\<rparr>) this = getTotalBills H g this" for this
    by (simp add: getTotalBills_def a b)
  show "getTotalDue H (g\<lparr>filterMonth := f\<rparr>) this = getTotalDue H g this"
    by (simp add: getTotalDue_def c)
qed


lemma filtered_to_April:
  "getFilteredData exampleHost (house\<lparr>filterMonth := Some ''2024-04''\<rparr>) =
     \<lparr>filteredBills = [], filteredPayments = [], filteredMealEntries = []\<rparr>"
  by (simp add: getFilteredData_def sameMonth_def example_defs)

lemma table_unfiltered:
  "map totalPaid (renderMembersTable_rows exampleHost (house\<lparr>filterMonth := None\<rparr>)) = [600, 0]"
  by (simp add: renderMembersTable_rows_def renderMembersTable_memberObjects_def
      getFilteredData_def getFilteredMembers_def getTotalPaid_def example_defs Let_def)

lemma table_of_April:
  "map totalPaid (renderMembersTable_rows exampleHost (house\<lparr>filterMonth := Some ''2024-04''\<rparr>)) =
     [0, 0]"
  by (simp add: renderMembersTable_rows_def renderMembersTable_memberObjects_def
      filtered_to_April getFilteredMembers_def getTotalPaid_def Let_def)
    (simp add: example_defs)

text \<open>
  Claim C9. \<open>settlementReport()\<close>, \<open>totalExpense()\<close>, \<open>totalDeposits()\<close> and \<open>totalDue()\<close> do not
  depend on the dashboard filter: under any two values \<open>fa\<close>, \<open>fb\<close> of \<open>filterMonth\<close> (\<open>null\<close> is one)
  over the same collections each returns the same result. The rows of the members
  table, built through \<open>getFilteredData\<close>, do depend on it: there are a state and two values
  of the filter under which they differ.
\<close>

theorem filterMonth_independence:
  "settlementReport H (g\<lparr>filterMonth := fa\<rparr>) = settlementReport H (g\<lparr>filterMonth := fb\<rparr>) \<and>
   totalExpense (g\<lparr>filterMonth := fa\<rparr>) = totalExpense (g\<lparr>filterMonth := fb\<rparr>) \<and>
   totalDeposits (g\<lparr>filterMonth := fa\<rparr>) = totalDeposits (g\<lparr>filterMonth := fb\<rparr>) \<and>
   totalDue H (g\<lparr>filterMonth := fa\<rparr>) = totalDue H (g\<lparr>filterMonth := fb\<rparr>) \<and>
   (\<exists>H' g' fa' fb'. renderMembersTable_rows H' (g'\<lparr>filterMonth := fa'\<rparr>) \<noteq>
                     renderMembersTable_rows H' (g'\<lparr>filterMonth := fb'\<rparr>))"
proof -
  have "renderMembersTable_rows exampleHost (house\<lparr>filterMonth := Some ''2024-04''\<rparr>) \<noteq>
        renderMembersTable_rows exampleHost (house\<lparr>filterMonth := None\<rparr>)"
  proof
    assume "renderMembersTable_rows exampleHost (house\<lparr>filterMonth := Some ''2024-04''\<rparr>) =
            renderMembersTable_rows exampleHost (house\<lparr>filterMonth := None\<rparr>)"
    then have "map totalPaid (renderMembersTable_rows exampleHost
                 (house\<lparr>filterMonth := Some ''2024-04''\<rparr>)) =
               map totalPaid (renderMembersTable_rows exampleHost (house\<lparr>filterMonth := None\<rparr>))"
      by (rule arg_cong)
    then show False
      by (simp only: table_of_April table_unfiltered) simp
  qed
  then have "\<exists>H' g' fa' fb'. renderMembersTable_rows H' (g'\<lparr>filterMonth := fa'\<rparr>) \<noteq>
                            renderMembersTable_rows H' (g'\<lparr>filterMonth := fb'\<rparr>)"
    by blast
  then show ?thesis
    by (simp add: settlementReport_def totalExpense_def totalDeposits_def totalDue_def
        filterMonth_irrelevant)
qed

theorem filterMonth_independence_witness:
  "settlementReport exampleHost (house\<lparr>filterMonth := Some ''2024-04''\<rparr>) =
     settlementReport exampleHost (house\<lparr>filterMonth := None\<rparr>) \<and>
   totalDeposits (house\<lparr>filterMonth := Some ''2024-04''\<rparr>) =
     totalDeposits (house\<lparr>filterMonth := None\<rparr>) \<and>
   map totalPaid (renderMembersTable_rows exampleHost (house\<lparr>filterMonth := Some ''2024-04''\<rparr>)) =
     [0, 0] \<and>
   map totalPaid (renderMembersTable_rows exampleHost (house\<lparr>filterMonth := None\<rparr>)) = [600, 0]"
  using filterMonth_independence
      [where H = exampleHost and g = house and fa = "Some ''2024-04''" and fb = None]
    table_of_April table_unfiltered
  by (simp only: simp_thms)

section \<open>Duplicate meal entries\<close>

lemma find_first_match:
  assumes "\<forall>x \<in> set xs. \<not> P x" and "P y"
  shows "find P (xs @ y # ys) = Some y"
  using assms by (induction xs) simp_all

lemma sum_list_filter_split:
  "sum_list (map f (filter P xs)) =
     sum_list (map f (filter (\<lambda>x. P x \<and> D x) xs)) +
     sum_list (map f (filter (\<lambda>x. P x \<and> \<not> D x) xs))"
  for f :: "'a \<Rightarrow> real"
  by (induction xs) simp_all

lemma getMonthlyMealTotal_sum:
  "getMonthlyMealTotal H g this =
     sum_list (map e_meal_count
       (filter (\<lambda>m. e_member_id m = this_id this \<and> Date H (e_meal_date m) = Some (currentDate g))
          (this_mealEntries this)))"
proof -
  have pred: "(if e_member_id m \<noteq> this_id this then False
         else (case Date H (e_meal_date m) of None \<Rightarrow> False
         | Some mealDate \<Rightarrow> getFullYear mealDate = getFullYear (currentDate g) \<and>
                               getMonth mealDate = getMonth (currentDate g))) \<longleftrightarrow>
        (e_member_id m = this_id this \<and> Date H (e_meal_date m) = Some (currentDate g))" for m
    by (cases "Date H (e_meal_date m)") auto
  show ?thesis
    by (simp only: getMonthlyMealTotal_def Let_def reduce_sum pred)
qed


text \<open>
  Claim C10. When the meal entries of a member object hold several entries for the same
  member and date, \<open>getMealCountForDate(date)\<close> returns the \<open>meal_count\<close> of the first of them
  in the order of the collection, whatever follows it, while \<open>getMonthlyMealTotal()\<close>, for
  a date of the displayed month, counts the \<open>meal_count\<close> of every one of them: the total
  is their sum plus the total without the entries of that day. The example has two
  entries for one day, of 2 and 3 meals: the count of the day is 2, the total 5.
\<close>

theorem duplicate_meal_entries:
  assumes "this_mealEntries this = xs @ first # rest"
    and "e_member_id first = this_id this" and "e_meal_date first = date"
    and "\<forall>x \<in> set xs. \<not> (e_member_id x = this_id this \<and> e_meal_date x = date)"
  shows "getMealCountForDate this date = e_meal_count first \<and>
         (Date H date = Some (currentDate g) \<longrightarrow>
            getMonthlyMealTotal H g this =
              sum_list (map e_meal_count
                (filter (\<lambda>m. e_member_id m = this_id this \<and> e_meal_date m = date)
                   (this_mealEntries this))) +
              getMonthlyMealTotal H g
                (this\<lparr>this_mealEntries :=
                   filter (\<lambda>m. \<not> (e_member_id m = this_id this \<and> e_meal_date m = date))
                     (this_mealEntries this)\<rparr>))"
proof (intro conjI impI)
  show "getMealCountForDate this date = e_meal_count first"
    using assms by (simp add: getMealCountForDate_def find_first_match)
next
  assume inMonth: "Date H date = Some (currentDate g)"
  let ?es = "this_mealEntries this"
  let ?Q = "\<lambda>m. e_member_id m = this_id this \<and> Date H (e_meal_date m) = Some (currentDate g)"
  let ?D = "\<lambda>m. e_meal_date m = date"
  let ?day = "\<lambda>m. e_member_id m = this_id this \<and> e_meal_date m = date"
  have day: "filter (\<lambda>m. ?Q m \<and> ?D m) ?es = filter ?day ?es"
    by (rule filter_cong) (use inMonth in auto)
  have others: "filter ?Q (filter (\<lambda>m. \<not> ?day m) ?es) = filter (\<lambda>m. ?Q m \<and> \<not> ?D m) ?es"
    unfolding filter_filter by (rule filter_cong) auto
  have "getMonthlyMealTotal H g this =
        sum_list (map e_meal_count (filter (\<lambda>m. ?Q m \<and> ?D m) ?es)) +
        sum_list (map e_meal_count (filter (\<lambda>m. ?Q m \<and> \<not> ?D m) ?es))"
    unfolding getMonthlyMealTotal_sum by (rule sum_list_filter_split)
  also have "sum_list (map e_meal_count (filter (\<lambda>m. ?Q m \<and> \<not> ?D m) ?es)) =
             getMonthlyMealTotal H g (this\<lparr>this_mealEntries := filter (\<lambda>m. \<not> ?day m) ?es\<rparr>)"
  proof -
    let ?upd = "this\<lparr>this_mealEntries := filter (\<lambda>m. \<not> ?day m) ?es\<rparr>"
    have sel: "this_id ?upd = this_id this"
      "this_mealEntries ?upd = filter (\<lambda>m. \<not> ?day m) ?es"
      by simp_all
    show ?thesis
      unfolding getMonthlyMealTotal_sum [of H g ?upd] by (simp only: sel others)
  qed
  finally show "getMonthlyMealTotal H g this =
              sum_list (map e_meal_count (filter ?day ?es)) +
              getMonthlyMealTotal H g (this\<lparr>this_mealEntries := filter (\<lambda>m. \<not> ?day m) ?es\<rparr>)"
    by (simp only: day)
qed

theorem duplicate_meal_entries_witness:
  "this_mealEntries (new_Member houseWithDuplicate memberA None None None) =
     [] @ firstEntry # [secondEntry] \<and>
   e_member_id firstEntry = this_id (new_Member houseWithDuplicate memberA None None None) \<and>
   e_member_id secondEntry = e_member_id firstEntry \<and>
   e_meal_date secondEntry = e_meal_date firstEntry \<and>
   Date exampleHost (e_meal_date firstEntry) = Some (currentDate houseWithDuplicate) \<and>
   getMealCountForDate (new_Member houseWithDuplicate memberA None None None)
     (e_meal_date firstEntry) = 2 \<and>
   getMonthlyMealTotal exampleHost houseWithDuplicate
     (new_Member houseWithDuplicate memberA None None None) = 5"
proof -
  let ?obj = "new_Member houseWithDuplicate memberA None None None"
  have 1: "this_mealEntries ?obj = [] @ firstEntry # [secondEntry]"
    by (simp add: houseWithDuplicate_def)
  have 2: "e_member_id firstEntry = this_id ?obj"
    by (simp add: firstEntry_def memberA_def)
  have 3: "\<forall>x \<in> set []. \<not> (e_member_id x = this_id ?obj \<and> e_meal_date x = e_meal_date firstEntry)"
    by simp
  have 4: "Date exampleHost (e_meal_date firstEntry) = Some (currentDate houseWithDuplicate)"
    by (simp add: exampleHost_def example_Date_def digit_def daysInMonth_def firstEntry_def
        houseWithDuplicate_def house_def)
  have 5: "e_member_id secondEntry = e_member_id firstEntry"
    and 6: "e_meal_date secondEntry = e_meal_date firstEntry"
    by (simp_all add: firstEntry_def secondEntry_def)
  note inst = duplicate_meal_entries [OF 1 2 refl 3, of exampleHost houseWithDuplicate]
  have 7: "getMealCountForDate ?obj (e_meal_date firstEntry) = 2"
    using inst by (simp add: firstEntry_def)
  have 8: "getMonthlyMealTotal exampleHost houseWithDuplicate ?obj = 5"
    using inst 4 2 5 6 unfolding 1
    by (simp add: getMonthlyMealTotal_def firstEntry_def secondEntry_def)
  from 1 2 4 5 6 7 8 show ?thesis
    by (simp only: simp_thms)
qed

end
